theory Spec2Isabelle
  imports Complex_Main
begin

section \<open>Data model of package feeds (internal/feeds/weather.go)\<close>

text \<open>
  Go's \<^verbatim>\<open>float64\<close> values are represented by the real number they denote. The only
  float constants of the package are the six decimal literals of the coordinate table;
  a literal stands for its decimal value. Temperatures are only copied, never computed
  with. Go's \<^verbatim>\<open>int\<close> is represented by \<open>int\<close>: the package does no arithmetic on it.
\<close>

type_synonym float64 = real

text \<open>\<^verbatim>\<open>type WeatherData struct { Summary string; TemperatureC, FeelsLikeC float64 }\<close>\<close>

record WeatherData =
  Summary :: string
  TemperatureC :: float64
  FeelsLikeC :: float64

text \<open>\<^verbatim>\<open>type Coordinates struct { Lat, Lon float64 }\<close>\<close>

record Coordinates =
  Lat :: float64
  Lon :: float64

text \<open>
  \<^verbatim>\<open>type OpenMeteoResponse struct { Current struct { Temperature, ApparentTemperature
  float64; WeatherCode int } }\<close>: the anonymous inner struct is the record \<open>CurrentWeather\<close>.
\<close>

record CurrentWeather =
  Temperature :: float64
  ApparentTemperature :: float64
  WeatherCode :: int

record OpenMeteoResponse =
  Current :: CurrentWeather

subsection \<open>The two static tables\<close>

text \<open>
  A Go map literal is the list of its key/value pairs, in the order of the source; the
  map itself is \<open>map_of\<close> of that list (the compiler rejects a literal with a duplicate
  key, so no pair is shadowed).
\<close>

definition naCountryCoordinates_entries :: "(string \<times> Coordinates) list" where
  "naCountryCoordinates_entries =
    [(''US'', \<lparr>Lat = 40.7128, Lon = - 74.0060\<rparr>),
     (''CA'', \<lparr>Lat = 43.6532, Lon = - 79.3832\<rparr>),
     (''MX'', \<lparr>Lat = 19.4326, Lon = - 99.1332\<rparr>)]"

definition naCountryCoordinates :: "string \<rightharpoonup> Coordinates" where
  "naCountryCoordinates = map_of naCountryCoordinates_entries"

definition weatherCodeDescriptions_entries :: "(int \<times> string) list" where
  "weatherCodeDescriptions_entries =
    [(0, ''Clear sky''),
     (1, ''Mainly clear''),
     (2, ''Partly cloudy''),
     (3, ''Overcast''),
     (45, ''Foggy''),
     (48, ''Depositing rime fog''),
     (51, ''Light drizzle''),
     (53, ''Moderate drizzle''),
     (55, ''Dense drizzle''),
     (61, ''Slight rain''),
     (63, ''Moderate rain''),
     (65, ''Heavy rain''),
     (71, ''Slight snow''),
     (73, ''Moderate snow''),
     (75, ''Heavy snow''),
     (77, ''Snow grains''),
     (80, ''Slight rain showers''),
     (81, ''Moderate rain showers''),
     (82, ''Violent rain showers''),
     (85, ''Slight snow showers''),
     (86, ''Heavy snow showers''),
     (95, ''Thunderstorm''),
     (96, ''Thunderstorm with slight hail''),
     (99, ''Thunderstorm with heavy hail'')]"

definition weatherCodeDescriptions :: "int \<rightharpoonup> string" where
  "weatherCodeDescriptions = map_of weatherCodeDescriptions_entries"

text \<open>
  The one-result index expression \<^verbatim>\<open>m[k]\<close> of Go yields the zero value of the element
  type when the key is absent; for \<open>Coordinates\<close> that is \<^verbatim>\<open>Coordinates{0, 0}\<close>.
\<close>

definition index_Coordinates :: "(string \<rightharpoonup> Coordinates) \<Rightarrow> string \<Rightarrow> Coordinates" where
  "index_Coordinates m k = (case m k of Some c \<Rightarrow> c | None \<Rightarrow> \<lparr>Lat = 0, Lon = 0\<rparr>)"

section \<open>The formatting verbs used by the package\<close>

text \<open>
  \<^verbatim>\<open>fmt.Sprintf\<close> and \<^verbatim>\<open>fmt.Errorf\<close> are called with the verbs \<^verbatim>\<open>%d\<close> and \<^verbatim>\<open>%.4f\<close>.
  \<open>fmt_d\<close> writes an integer in decimal. \<open>fmt_f4\<close> writes a number with exactly four
  digits after the point, rounded to the nearest multiple of \<open>1/10000\<close>, a tie going to
  the even one.
\<close>

definition digit_char :: "nat \<Rightarrow> char" where
  "digit_char d = ''0123456789'' ! (d mod 10)"

fun fmt_nat :: "nat \<Rightarrow> string" where
  "fmt_nat n = (if n < 10 then [digit_char n] else fmt_nat (n div 10) @ [digit_char (n mod 10)])"

declare fmt_nat.simps [simp del]

definition fmt_d :: "int \<Rightarrow> string" where
  "fmt_d i = (if i < 0 then ''-'' @ fmt_nat (nat (- i)) else fmt_nat (nat i))"

definition round_half_even :: "real \<Rightarrow> nat" where
  "round_half_even a =
    (let n = nat \<lfloor>a\<rfloor>; r = a - of_nat n
     in if 1 / 2 < r \<or> (r = 1 / 2 \<and> odd n) then n + 1 else n)"

definition fmt_f4 :: "float64 \<Rightarrow> string" where
  "fmt_f4 x =
    (let n = round_half_even (\<bar>x\<bar> * 10000)
     in (if x < 0 then ''-'' else '''') @ fmt_nat (n div 10000) @ ''.'' @
        [digit_char (n div 1000), digit_char (n div 100), digit_char (n div 10), digit_char n])"

section \<open>FetchWeather\<close>

text \<open>
  The three \<^verbatim>\<open>return nil, fmt.Errorf(...)\<close> sites of \<open>FetchWeather\<close>, each with the value
  its format string is applied to; \<open>Error\<close> is the message of the error
  (\<^verbatim>\<open>err.Error()\<close>). A wrapped error (\<^verbatim>\<open>%w\<close>) is represented by its message.
\<close>

datatype fetch_error =
  CallFailed string
  | BadStatus int
  | ParseFailed string

fun Error :: "fetch_error \<Rightarrow> string" where
  "Error (CallFailed err) = ''weather API call failed: '' @ err"
| "Error (BadStatus code) = ''weather API returned status '' @ fmt_d code"
| "Error (ParseFailed err) = ''failed to parse weather response: '' @ err"

text \<open>\<^verbatim>\<open>http.Response\<close>, as far as the package reads it: the status code and the body.\<close>

record 'b Response =
  StatusCode :: int
  Body :: 'b

definition StatusOK :: int where
  "StatusOK = 200"

text \<open>Lines 70-74: the coordinates of the country, those of \<^verbatim>\<open>"US"\<close> when it has none.\<close>

definition resolveCoordinates :: "string \<Rightarrow> Coordinates" where
  "resolveCoordinates country =
    (case naCountryCoordinates country of
       Some coords \<Rightarrow> coords
     | None \<Rightarrow> index_Coordinates naCountryCoordinates ''US'')"

text \<open>Lines 77-80: the request URL.\<close>

definition buildURL :: "Coordinates \<Rightarrow> string" where
  "buildURL coords =
    ''https://api.open-meteo.com/v1/forecast?latitude='' @ fmt_f4 (Lat coords) @
    ''&longitude='' @ fmt_f4 (Lon coords) @
    ''&current=temperature_2m,apparent_temperature,weather_code''"

text \<open>Lines 105-108: the description of a weather code, \<^verbatim>\<open>"Unknown"\<close> when it has none.\<close>

definition describeWeatherCode :: "int \<Rightarrow> string" where
  "describeWeatherCode code =
    (case weatherCodeDescriptions code of
       Some description \<Rightarrow> description
     | None \<Rightarrow> ''Unknown'')"

text \<open>
  \<open>FetchWeather\<close> itself. The two library calls are parameters: \<open>clientGet\<close> is
  \<^verbatim>\<open>client.Get\<close>, which acts on the outside world \<open>'w\<close> and yields an error or a
  response; \<open>jsonDecode\<close> is \<^verbatim>\<open>json.NewDecoder(resp.Body).Decode\<close>, which yields an
  error or the decoded \<open>OpenMeteoResponse\<close>. The result is the pair that Go returns, a
  \<^verbatim>\<open>nil\<close> pointer and a \<^verbatim>\<open>nil\<close> error being \<open>None\<close>, together with the world after
  the call.
\<close>

definition FetchWeather ::
  "(string \<Rightarrow> 'w \<Rightarrow> (string + 'b Response) \<times> 'w) \<Rightarrow> ('b \<Rightarrow> string + OpenMeteoResponse) \<Rightarrow>
   string \<Rightarrow> 'w \<Rightarrow> (WeatherData option \<times> fetch_error option) \<times> 'w" where
  "FetchWeather clientGet jsonDecode country w =
    (let coords = resolveCoordinates country;
         url = buildURL coords;
         (r, w') = clientGet url w
     in case r of
          Inl err \<Rightarrow> ((None, Some (CallFailed err)), w')
        | Inr resp \<Rightarrow>
            if StatusCode resp \<noteq> StatusOK then ((None, Some (BadStatus (StatusCode resp))), w')
            else (case jsonDecode (Body resp) of
                    Inl err \<Rightarrow> ((None, Some (ParseFailed err)), w')
                  | Inr apiResp \<Rightarrow>
                      (let description = describeWeatherCode (WeatherCode (Current apiResp))
                       in ((Some \<lparr>Summary = description,
                                  TemperatureC = Temperature (Current apiResp),
                                  FeelsLikeC = ApparentTemperature (Current apiResp)\<rparr>,
                            None), w'))))"

section \<open>Test doubles\<close>

text \<open>
  A server in the manner of the mock Open-Meteo server of the package's tests: every GET
  is answered with the given status and body, and the world is the list of the URLs
  requested so far. \<open>deadServer\<close> is a server that cannot be reached.
\<close>

definition mockServer :: "int \<Rightarrow> 'b \<Rightarrow> string \<Rightarrow> string list \<Rightarrow> (string + 'b Response) \<times> string list" where
  "mockServer status body url reqs = (Inr \<lparr>StatusCode = status, Body = body\<rparr>, reqs @ [url])"

definition deadServer :: "string \<Rightarrow> string \<Rightarrow> string list \<Rightarrow> (string + 'b Response) \<times> string list" where
  "deadServer err url reqs = (Inl err, reqs @ [url])"

text \<open>The body of the mock server, already decoded: 25.5 degrees, feels like 24.0, code 0.\<close>

definition mockResponse :: OpenMeteoResponse where
  "mockResponse = \<lparr>Current = \<lparr>Temperature = 25.5, ApparentTemperature = 24.0, WeatherCode = 0\<rparr>\<rparr>"

text \<open>
  A decoder for bodies that are either malformed (\<open>Inl\<close>, with the decoder's complaint) or
  a decoded value (\<open>Inr\<close>), and one body of each kind.
\<close>

definition decodeBody :: "string + OpenMeteoResponse \<Rightarrow> string + OpenMeteoResponse" where
  "decodeBody body = body"

definition mockBody :: "string + OpenMeteoResponse" where
  "mockBody = Inr mockResponse"

definition malformedBody :: "string + OpenMeteoResponse" where
  "malformedBody = Inl ''unexpected end of JSON input''"

section \<open>The JSON round trip of WeatherData\<close>

text \<open>
  The package's test \<^verbatim>\<open>TestWeatherDataSerialization\<close> passes a \<open>WeatherData\<close> through
  \<^verbatim>\<open>json.Marshal\<close> and \<^verbatim>\<open>json.Unmarshal\<close>. Both belong to \<^verbatim>\<open>encoding/json\<close>; the
  package only gives the three fields their keys. A JSON text is represented by its syntax
  tree: a string token by the bytes of the string it denotes, a number token by the
  \<open>float64\<close> it denotes (Go writes the shortest decimal that reads back as the same
  \<open>float64\<close>). A \<open>float64\<close> of this development is a finite number; NaN and the two
  infinities, which \<^verbatim>\<open>json.Marshal\<close> refuses with an error, are not among its values.
\<close>

datatype json =
  JNull
  | JBool bool
  | JNumber float64
  | JString string
  | JArray "json list"
  | JObject "(string \<times> json) list"

subsection \<open>UTF-8\<close>

text \<open>
  A Go string is any sequence of bytes. \<open>runeLen s\<close> is the number of bytes of the
  well-formed UTF-8 sequence that \<open>s\<close> starts with, and 0 when it starts with none
  (where \<^verbatim>\<open>utf8.DecodeRuneInString\<close> yields \<^verbatim>\<open>RuneError\<close> with width 1): the table of
  first bytes and of the range of the second byte is the one of package \<^verbatim>\<open>unicode/utf8\<close>.
\<close>

definition byte :: "char \<Rightarrow> nat" where
  "byte c = of_char c"

definition accept :: "nat \<Rightarrow> nat \<Rightarrow> string \<Rightarrow> nat \<Rightarrow> bool" where
  "accept lo hi cs i = (i < length cs \<and> lo \<le> byte (cs ! i) \<and> byte (cs ! i) \<le> hi)"

definition runeLen :: "string \<Rightarrow> nat" where
  "runeLen s =
    (case s of
       [] \<Rightarrow> 0
     | c # cs \<Rightarrow>
         (let b = byte c in
          if b < 0x80 then 1
          else if 0xC2 \<le> b \<and> b \<le> 0xDF then
            (if accept 0x80 0xBF cs 0 then 2 else 0)
          else if b = 0xE0 then
            (if accept 0xA0 0xBF cs 0 \<and> accept 0x80 0xBF cs 1 then 3 else 0)
          else if b = 0xED then
            (if accept 0x80 0x9F cs 0 \<and> accept 0x80 0xBF cs 1 then 3 else 0)
          else if 0xE1 \<le> b \<and> b \<le> 0xEF then
            (if accept 0x80 0xBF cs 0 \<and> accept 0x80 0xBF cs 1 then 3 else 0)
          else if b = 0xF0 then
            (if accept 0x90 0xBF cs 0 \<and> accept 0x80 0xBF cs 1 \<and> accept 0x80 0xBF cs 2
             then 4 else 0)
          else if 0xF1 \<le> b \<and> b \<le> 0xF3 then
            (if accept 0x80 0xBF cs 0 \<and> accept 0x80 0xBF cs 1 \<and> accept 0x80 0xBF cs 2
             then 4 else 0)
          else if b = 0xF4 then
            (if accept 0x80 0x8F cs 0 \<and> accept 0x80 0xBF cs 1 \<and> accept 0x80 0xBF cs 2
             then 4 else 0)
          else 0))"

text \<open>
  \<^verbatim>\<open>utf8.ValidString\<close>: the string is a sequence of well-formed UTF-8 sequences. The
  first argument counts the bytes still to skip of the sequence that has been entered.
\<close>

fun validFrom :: "nat \<Rightarrow> string \<Rightarrow> bool" where
  "validFrom k [] = True"
| "validFrom (Suc k) (c # cs) = validFrom k cs"
| "validFrom 0 (c # cs) = (runeLen (c # cs) \<noteq> 0 \<and> validFrom (runeLen (c # cs) - 1) cs)"

definition ValidString :: "string \<Rightarrow> bool" where
  "ValidString s = validFrom 0 s"

text \<open>
  Modelled from the spec: the string that a JSON string written by \<^verbatim>\<open>json.Marshal\<close>
  denotes. \<^verbatim>\<open>encoding/json\<close> is not among the sources of the package; its documentation
  says that strings are
  coerced to valid UTF-8, each invalid byte being replaced by the replacement rune U+FFFD,
  whose UTF-8 encoding is the three bytes EF BF BD.
\<close>

definition replacementChar :: string where
  "replacementChar = [CHR 0xEF, CHR 0xBF, CHR 0xBD]"

fun coerceFrom :: "nat \<Rightarrow> string \<Rightarrow> string" where
  "coerceFrom k [] = []"
| "coerceFrom (Suc k) (c # cs) = c # coerceFrom k cs"
| "coerceFrom 0 (c # cs) =
    (if runeLen (c # cs) = 0 then replacementChar @ coerceFrom 0 cs
     else c # coerceFrom (runeLen (c # cs) - 1) cs)"

definition coerceUTF8 :: "string \<Rightarrow> string" where
  "coerceUTF8 s = coerceFrom 0 s"

subsection \<open>Marshal and Unmarshal at type WeatherData\<close>

text \<open>
  Modelled from the spec: \<^verbatim>\<open>json.Marshal\<close> of a \<open>WeatherData\<close>, which is not among
  the sources of the package. The result has the output shape of the spec, an object with the members
  \<open>summary\<close>, a string, and \<open>temperatureC\<close> and \<open>feelsLikeC\<close>, numbers, in the order of
  the fields and under the keys of the struct tags (weather.go, lines 11-15).
\<close>

definition Marshal_WeatherData :: "WeatherData \<Rightarrow> json" where
  "Marshal_WeatherData d =
    JObject [(''summary'', JString (coerceUTF8 (Summary d))),
             (''temperatureC'', JNumber (TemperatureC d)),
             (''feelsLikeC'', JNumber (FeelsLikeC d))]"

text \<open>
  Modelled from the spec: \<^verbatim>\<open>json.Unmarshal\<close> into a fresh \<open>WeatherData\<close>, which is not
  among the sources of the package. By the documentation of \<^verbatim>\<open>encoding/json\<close>: the members of the object are
  assigned in order, a later one overwriting an earlier one; a key names a field when it
  equals the field's key up to the case of letters; a member with an unknown key is
  ignored; \<^verbatim>\<open>null\<close> leaves the field as it is; a value of another kind than the field's
  is an error; a field that no member names keeps its zero value.
\<close>

definition foldName :: "string \<Rightarrow> string" where
  "foldName s = map (\<lambda>c. if 97 \<le> byte c \<and> byte c \<le> 122 then char_of (byte c - 32) else c) s"

definition assignField :: "WeatherData \<Rightarrow> string \<Rightarrow> json \<Rightarrow> string + WeatherData" where
  "assignField d key v =
    (if foldName key = foldName ''summary'' then
       (case v of
          JNull \<Rightarrow> Inr d
        | JString s \<Rightarrow> Inr (d\<lparr>Summary := s\<rparr>)
        | _ \<Rightarrow> Inl ''json: cannot unmarshal into Go struct field WeatherData.summary of type string'')
     else if foldName key = foldName ''temperatureC'' then
       (case v of
          JNull \<Rightarrow> Inr d
        | JNumber x \<Rightarrow> Inr (d\<lparr>TemperatureC := x\<rparr>)
        | _ \<Rightarrow> Inl ''json: cannot unmarshal into Go struct field WeatherData.temperatureC of type float64'')
     else if foldName key = foldName ''feelsLikeC'' then
       (case v of
          JNull \<Rightarrow> Inr d
        | JNumber x \<Rightarrow> Inr (d\<lparr>FeelsLikeC := x\<rparr>)
        | _ \<Rightarrow> Inl ''json: cannot unmarshal into Go struct field WeatherData.feelsLikeC of type float64'')
     else Inr d)"

fun assignFields :: "WeatherData \<Rightarrow> (string \<times> json) list \<Rightarrow> string + WeatherData" where
  "assignFields d [] = Inr d"
| "assignFields d ((key, v) # kvs) =
    (case assignField d key v of
       Inl err \<Rightarrow> Inl err
     | Inr d' \<Rightarrow> assignFields d' kvs)"

definition Unmarshal_WeatherData :: "json \<Rightarrow> string + WeatherData" where
  "Unmarshal_WeatherData j =
    (case j of
       JObject kvs \<Rightarrow> assignFields \<lparr>Summary = [], TemperatureC = 0, FeelsLikeC = 0\<rparr> kvs
     | JNull \<Rightarrow> Inr \<lparr>Summary = [], TemperatureC = 0, FeelsLikeC = 0\<rparr>
     | _ \<Rightarrow> Inl ''json: cannot unmarshal into Go value of type feeds.WeatherData'')"

section \<open>Facts about the tables\<close>

lemma naCountryCoordinates_keys:
  "map fst naCountryCoordinates_entries = [''US'', ''CA'', ''MX'']"
  by (simp add: naCountryCoordinates_entries_def)

lemma weatherCodeDescriptions_keys:
  "map fst weatherCodeDescriptions_entries =
    [0, 1, 2, 3, 45, 48, 51, 53, 55, 61, 63, 65, 71, 73, 75, 77, 80, 81, 82, 85, 86, 95, 96, 99]"
  by (simp add: weatherCodeDescriptions_entries_def)

lemma card_dom_map_of: "distinct (map fst xs) \<Longrightarrow> card (dom (map_of xs)) = length xs"
  by (simp add: dom_map_of_conv_image_fst distinct_card flip: set_map)

lemma card_naCountryCoordinates: "card (dom naCountryCoordinates) = 3"
proof -
  have "distinct (map fst naCountryCoordinates_entries)"
    unfolding naCountryCoordinates_keys by simp
  then have "card (dom naCountryCoordinates) = length (map fst naCountryCoordinates_entries)"
    unfolding naCountryCoordinates_def by (simp add: card_dom_map_of)
  then show ?thesis
    unfolding naCountryCoordinates_keys by simp
qed

lemma card_weatherCodeDescriptions: "card (dom weatherCodeDescriptions) = 24"
proof -
  have "distinct (map fst weatherCodeDescriptions_entries)"
    unfolding weatherCodeDescriptions_keys by simp
  then have "card (dom weatherCodeDescriptions) = length (map fst weatherCodeDescriptions_entries)"
    unfolding weatherCodeDescriptions_def by (simp add: card_dom_map_of)
  then show ?thesis
    unfolding weatherCodeDescriptions_keys by simp
qed

lemma naCountryCoordinates_US:
  "naCountryCoordinates ''US'' = Some \<lparr>Lat = 40.7128, Lon = - 74.0060\<rparr>"
  by (simp add: naCountryCoordinates_def naCountryCoordinates_entries_def)

lemma naCountryCoordinates_cases:
  "naCountryCoordinates country =
    (if country = ''US'' then Some \<lparr>Lat = 40.7128, Lon = - 74.0060\<rparr>
     else if country = ''CA'' then Some \<lparr>Lat = 43.6532, Lon = - 79.3832\<rparr>
     else if country = ''MX'' then Some \<lparr>Lat = 19.4326, Lon = - 99.1332\<rparr>
     else None)"
  by (simp add: naCountryCoordinates_def naCountryCoordinates_entries_def)

lemma resolveCoordinates_cases:
  "resolveCoordinates country =
    (if country = ''CA'' then \<lparr>Lat = 43.6532, Lon = - 79.3832\<rparr>
     else if country = ''MX'' then \<lparr>Lat = 19.4326, Lon = - 99.1332\<rparr>
     else \<lparr>Lat = 40.7128, Lon = - 74.0060\<rparr>)"
  by (simp add: resolveCoordinates_def index_Coordinates_def naCountryCoordinates_cases)

lemma describeWeatherCode_nonempty: "describeWeatherCode code \<noteq> []"
  by (simp add: describeWeatherCode_def weatherCodeDescriptions_def
      weatherCodeDescriptions_entries_def)

section \<open>Facts about the formatting verbs\<close>

lemma round_half_even_numeral: "round_half_even (numeral k) = numeral k"
  by (simp add: round_half_even_def Let_def)

lemma digit_char_digit: "digit_char d \<in> set ''0123456789''"
proof -
  have "d mod 10 < length ''0123456789''" by simp
  then show ?thesis unfolding digit_char_def by (rule nth_mem)
qed

lemma fmt_nat_digits: "set (fmt_nat n) \<subseteq> set ''0123456789''"
proof (induction n rule: fmt_nat.induct)
  case (1 n)
  show ?case
  proof (cases "n < 10")
    case True
    then have "fmt_nat n = [digit_char n]" by (simp add: fmt_nat.simps)
    then show ?thesis using digit_char_digit [of n] by simp
  next
    case False
    then have "fmt_nat n = fmt_nat (n div 10) @ [digit_char (n mod 10)]"
      by (subst fmt_nat.simps) simp
    then show ?thesis using 1 False digit_char_digit [of "n mod 10"] by simp
  qed
qed

lemma fmt_nat_nonempty: "fmt_nat n \<noteq> []"
  by (subst fmt_nat.simps) simp

lemma fmt_f4_shape:
  "\<exists>sign ip fr. fmt_f4 x = sign @ ip @ ''.'' @ fr \<and> (sign = [] \<or> sign = ''-'') \<and>
     ip \<noteq> [] \<and> set ip \<subseteq> set ''0123456789'' \<and> length fr = 4 \<and> set fr \<subseteq> set ''0123456789''"
proof -
  define n where "n = round_half_even (\<bar>x\<bar> * 10000)"
  define fr where "fr = [digit_char (n div 1000), digit_char (n div 100), digit_char (n div 10), digit_char n]"
  have "fmt_f4 x = (if x < 0 then ''-'' else []) @ fmt_nat (n div 10000) @ ''.'' @ fr"
    by (simp add: fmt_f4_def Let_def n_def fr_def)
  moreover have "set fr \<subseteq> set ''0123456789''"
    unfolding fr_def using digit_char_digit by simp
  moreover have "length fr = 4" by (simp add: fr_def)
  ultimately show ?thesis
    using fmt_nat_digits [of "n div 10000"] fmt_nat_nonempty [of "n div 10000"]
    by (intro exI [of _ "if x < 0 then ''-'' else []"] exI [of _ "fmt_nat (n div 10000)"] exI [of _ fr]) simp
qed

lemma fmt_nat_40: "fmt_nat 40 = ''40''" by code_simp
lemma fmt_nat_43: "fmt_nat 43 = ''43''" by code_simp
lemma fmt_nat_19: "fmt_nat 19 = ''19''" by code_simp
lemma fmt_nat_74: "fmt_nat 74 = ''74''" by code_simp
lemma fmt_nat_79: "fmt_nat 79 = ''79''" by code_simp
lemma fmt_nat_99: "fmt_nat 99 = ''99''" by code_simp

lemma fmt_f4_table:
  "fmt_f4 40.7128 = ''40.7128''" "fmt_f4 (- 74.0060) = ''-74.0060''"
  "fmt_f4 43.6532 = ''43.6532''" "fmt_f4 (- 79.3832) = ''-79.3832''"
  "fmt_f4 19.4326 = ''19.4326''" "fmt_f4 (- 99.1332) = ''-99.1332''"
  by (simp_all add: fmt_f4_def round_half_even_numeral Let_def digit_char_def
      fmt_nat_40 fmt_nat_43 fmt_nat_19 fmt_nat_74 fmt_nat_79 fmt_nat_99)

lemma buildURL_US:
  "buildURL \<lparr>Lat = 40.7128, Lon = - 74.0060\<rparr> =
    ''https://api.open-meteo.com/v1/forecast?latitude=40.7128&longitude=-74.0060&current=temperature_2m,apparent_temperature,weather_code''"
  by (simp only: buildURL_def Coordinates.select_convs fmt_f4_table append.simps)

lemma buildURL_CA:
  "buildURL \<lparr>Lat = 43.6532, Lon = - 79.3832\<rparr> =
    ''https://api.open-meteo.com/v1/forecast?latitude=43.6532&longitude=-79.3832&current=temperature_2m,apparent_temperature,weather_code''"
  by (simp only: buildURL_def Coordinates.select_convs fmt_f4_table append.simps)

lemma buildURL_MX:
  "buildURL \<lparr>Lat = 19.4326, Lon = - 99.1332\<rparr> =
    ''https://api.open-meteo.com/v1/forecast?latitude=19.4326&longitude=-99.1332&current=temperature_2m,apparent_temperature,weather_code''"
  by (simp only: buildURL_def Coordinates.select_convs fmt_f4_table append.simps)

lemma buildURL_cases:
  "buildURL (resolveCoordinates country) =
    (if country = ''CA'' then
       ''https://api.open-meteo.com/v1/forecast?latitude=43.6532&longitude=-79.3832&current=temperature_2m,apparent_temperature,weather_code''
     else if country = ''MX'' then
       ''https://api.open-meteo.com/v1/forecast?latitude=19.4326&longitude=-99.1332&current=temperature_2m,apparent_temperature,weather_code''
     else
       ''https://api.open-meteo.com/v1/forecast?latitude=40.7128&longitude=-74.0060&current=temperature_2m,apparent_temperature,weather_code'')"
  by (simp only: resolveCoordinates_cases if_distrib [of buildURL] buildURL_US buildURL_CA buildURL_MX)

lemma fmt_d_500: "fmt_d 500 = ''500''"
  by code_simp

section \<open>FetchWeather by cases\<close>

lemma FetchWeather_cases:
  "FetchWeather clientGet jsonDecode country w =
    (let (r, w') = clientGet (buildURL (resolveCoordinates country)) w
     in (case r of
           Inl err \<Rightarrow> (None, Some (CallFailed err))
         | Inr resp \<Rightarrow>
             (if StatusCode resp = 200 then
                (case jsonDecode (Body resp) of
                   Inl err \<Rightarrow> (None, Some (ParseFailed err))
                 | Inr apiResp \<Rightarrow>
                     (Some \<lparr>Summary = describeWeatherCode (WeatherCode (Current apiResp)),
                            TemperatureC = Temperature (Current apiResp),
                            FeelsLikeC = ApparentTemperature (Current apiResp)\<rparr>, None))
              else (None, Some (BadStatus (StatusCode resp)))), w'))"
  by (simp add: FetchWeather_def StatusOK_def Let_def split: prod.splits sum.splits)

section \<open>Coordinate resolution\<close>

text \<open>
  Claim C1. Coordinate resolution never fails. For a country code that is in the table it
  yields the coordinates of that entry: \<open>US\<close> gives (40.7128, -74.0060), \<open>CA\<close> gives
  (43.6532, -79.3832) and \<open>MX\<close> gives (19.4326, -99.1332). For a code that is not in the
  table, such as \<open>XX\<close>, it yields the coordinates of the fallback entry \<open>US\<close>, which
  are (40.7128, -74.0060). \<open>resolveCoordinates\<close> has no error result at all.
\<close>

theorem resolveCoordinates_never_fails:
  "(\<forall>coords. naCountryCoordinates country = Some coords \<longrightarrow> resolveCoordinates country = coords) \<and>
   (naCountryCoordinates country = None \<longrightarrow>
      resolveCoordinates country = the (naCountryCoordinates ''US'') \<and>
      resolveCoordinates country = resolveCoordinates ''US'' \<and>
      resolveCoordinates country = \<lparr>Lat = 40.7128, Lon = - 74.0060\<rparr>) \<and>
   resolveCoordinates ''US'' = \<lparr>Lat = 40.7128, Lon = - 74.0060\<rparr> \<and>
   resolveCoordinates ''CA'' = \<lparr>Lat = 43.6532, Lon = - 79.3832\<rparr> \<and>
   resolveCoordinates ''MX'' = \<lparr>Lat = 19.4326, Lon = - 99.1332\<rparr> \<and>
   naCountryCoordinates ''XX'' = None"
  by (simp add: resolveCoordinates_cases naCountryCoordinates_cases)

theorem resolveCoordinates_never_fails_witness:
  "naCountryCoordinates ''CA'' = Some \<lparr>Lat = 43.6532, Lon = - 79.3832\<rparr> \<and>
   resolveCoordinates ''CA'' = \<lparr>Lat = 43.6532, Lon = - 79.3832\<rparr> \<and>
   naCountryCoordinates ''XX'' = None \<and>
   resolveCoordinates ''XX'' = \<lparr>Lat = 40.7128, Lon = - 74.0060\<rparr>"
  using resolveCoordinates_never_fails [of "''CA''"] resolveCoordinates_never_fails [of "''XX''"]
  by (simp add: naCountryCoordinates_cases)

section \<open>Size of the tables\<close>

text \<open>
  Claim C3, as stated, gives the weather-code table 23 entries. The table of the source
  does not have 23 entries.
\<close>

theorem weatherCodeDescriptions_not_23_entries:
  "card (dom weatherCodeDescriptions) \<noteq> 23"
  by (simp add: card_weatherCodeDescriptions)

text \<open>
  Claim C3, amended. The country-coordinate table has exactly 3 entries and the
  weather-code table has exactly 24 entries, counted both as pairs of the literal and as
  keys of the map. Both tables are constants: no operation of the package takes or
  returns them.
\<close>

theorem table_sizes:
  "card (dom naCountryCoordinates) = 3 \<and> length naCountryCoordinates_entries = 3 \<and>
   card (dom weatherCodeDescriptions) = 24 \<and> length weatherCodeDescriptions_entries = 24"
  by (simp add: card_naCountryCoordinates card_weatherCodeDescriptions)
    (simp add: naCountryCoordinates_entries_def weatherCodeDescriptions_entries_def)

section \<open>Weather-code resolution\<close>

text \<open>
  Claim C4. Weather-code resolution is total. For an integer code that is in the table it
  yields exactly the description of that entry: 0 gives \<open>Clear sky\<close> and 61 gives
  \<open>Slight rain\<close>. For a code that is not in the table, such as 999, it yields the
  string \<open>Unknown\<close>.
\<close>

theorem describeWeatherCode_never_fails:
  "(\<forall>description. weatherCodeDescriptions code = Some description \<longrightarrow>
      describeWeatherCode code = description) \<and>
   (weatherCodeDescriptions code = None \<longrightarrow> describeWeatherCode code = ''Unknown'') \<and>
   describeWeatherCode 0 = ''Clear sky'' \<and>
   describeWeatherCode 61 = ''Slight rain'' \<and>
   weatherCodeDescriptions 999 = None \<and>
   describeWeatherCode 999 = ''Unknown''"
  by (simp add: describeWeatherCode_def)
    (simp add: weatherCodeDescriptions_def weatherCodeDescriptions_entries_def)

theorem describeWeatherCode_never_fails_witness:
  "weatherCodeDescriptions 95 = Some ''Thunderstorm'' \<and> describeWeatherCode 95 = ''Thunderstorm'' \<and>
   weatherCodeDescriptions 4 = None \<and> describeWeatherCode 4 = ''Unknown''"
  using describeWeatherCode_never_fails [of 95] describeWeatherCode_never_fails [of 4]
  by (simp add: weatherCodeDescriptions_def weatherCodeDescriptions_entries_def)

section \<open>Range of the coordinates\<close>

text \<open>
  Claim C8. For every country code, in the table or not, the resolved coordinates have a
  latitude between -90 and 90 and a longitude between -180 and 180; and every entry of
  the coordinate table has.
\<close>

theorem coordinates_in_range:
  "- 90 \<le> Lat (resolveCoordinates country) \<and> Lat (resolveCoordinates country) \<le> 90 \<and>
   - 180 \<le> Lon (resolveCoordinates country) \<and> Lon (resolveCoordinates country) \<le> 180 \<and>
   (\<forall>(k, coords) \<in> set naCountryCoordinates_entries.
      - 90 \<le> Lat coords \<and> Lat coords \<le> 90 \<and> - 180 \<le> Lon coords \<and> Lon coords \<le> 180)"
  by (simp add: resolveCoordinates_cases naCountryCoordinates_entries_def)

theorem coordinates_in_range_witness:
  "(''MX'', \<lparr>Lat = 19.4326, Lon = - 99.1332\<rparr>) \<in> set naCountryCoordinates_entries \<and>
   - 90 \<le> Lat \<lparr>Lat = 19.4326, Lon = - 99.1332\<rparr> \<and> Lat \<lparr>Lat = 19.4326, Lon = - 99.1332\<rparr> \<le> 90 \<and>
   - 180 \<le> Lon \<lparr>Lat = 19.4326, Lon = - 99.1332\<rparr> \<and> Lon \<lparr>Lat = 19.4326, Lon = - 99.1332\<rparr> \<le> 180 \<and>
   - 90 \<le> Lat (resolveCoordinates ''ZZ'') \<and> Lat (resolveCoordinates ''ZZ'') \<le> 90 \<and>
   - 180 \<le> Lon (resolveCoordinates ''ZZ'') \<and> Lon (resolveCoordinates ''ZZ'') \<le> 180"
  using coordinates_in_range [of "''ZZ''"]
  by (simp add: naCountryCoordinates_entries_def)


section \<open>The outcomes of FetchWeather\<close>

text \<open>
  Claim C5. When \<open>FetchWeather\<close> succeeds, that is, returns no error, the GET has yielded
  a response whose body was decoded, and the returned \<open>WeatherData\<close> has as summary the
  description of the decoded weather code, as \<open>TemperatureC\<close> the decoded temperature and
  as \<open>FeelsLikeC\<close> the decoded apparent temperature, both unchanged.
\<close>

theorem FetchWeather_success:
  assumes "snd (fst (FetchWeather clientGet jsonDecode country w)) = None"
  shows "\<exists>resp apiResp.
           fst (clientGet (buildURL (resolveCoordinates country)) w) = Inr resp \<and>
           jsonDecode (Body resp) = Inr apiResp \<and>
           fst (fst (FetchWeather clientGet jsonDecode country w)) =
             Some \<lparr>Summary = describeWeatherCode (WeatherCode (Current apiResp)),
                   TemperatureC = Temperature (Current apiResp),
                   FeelsLikeC = ApparentTemperature (Current apiResp)\<rparr>"
  using assms
  by (auto simp: FetchWeather_cases Let_def split: prod.splits sum.splits if_splits)

theorem FetchWeather_success_witness:
  "snd (fst (FetchWeather (mockServer 200 mockBody) decodeBody ''US'' [])) = None \<and>
   fst (fst (FetchWeather (mockServer 200 mockBody) decodeBody ''US'' [])) =
     Some \<lparr>Summary = ''Clear sky'', TemperatureC = 25.5, FeelsLikeC = 24.0\<rparr>"
proof -
  have ok: "snd (fst (FetchWeather (mockServer 200 mockBody) decodeBody ''US'' [])) = None"
    by (simp add: FetchWeather_cases mockServer_def mockBody_def malformedBody_def decodeBody_def)
  from FetchWeather_success [OF ok] show ?thesis
    by (simp add: ok) (simp add: mockServer_def mockBody_def malformedBody_def decodeBody_def mockResponse_def
        describeWeatherCode_def weatherCodeDescriptions_def weatherCodeDescriptions_entries_def)
qed

text \<open>
  Claim C6. When \<open>FetchWeather\<close> fails, it returns no \<open>WeatherData\<close>. The error is one
  of three: the GET failed, or the status of the response is not \<open>StatusOK\<close>, or the body
  could not be decoded; its message says which, with the cause. Nothing is retried: the
  world after the call is the world after the one GET of the request URL.
\<close>

theorem FetchWeather_failure:
  assumes "snd (fst (FetchWeather clientGet jsonDecode country w)) = Some e"
  shows "fst (fst (FetchWeather clientGet jsonDecode country w)) = None \<and>
         snd (FetchWeather clientGet jsonDecode country w) =
           snd (clientGet (buildURL (resolveCoordinates country)) w) \<and>
         ((\<exists>err. fst (clientGet (buildURL (resolveCoordinates country)) w) = Inl err \<and>
                 e = CallFailed err \<and> Error e = ''weather API call failed: '' @ err) \<or>
          (\<exists>resp. fst (clientGet (buildURL (resolveCoordinates country)) w) = Inr resp \<and>
                  StatusCode resp \<noteq> StatusOK \<and> e = BadStatus (StatusCode resp) \<and>
                  Error e = ''weather API returned status '' @ fmt_d (StatusCode resp)) \<or>
          (\<exists>resp err. fst (clientGet (buildURL (resolveCoordinates country)) w) = Inr resp \<and>
                  StatusCode resp = StatusOK \<and> jsonDecode (Body resp) = Inl err \<and>
                  e = ParseFailed err \<and> Error e = ''failed to parse weather response: '' @ err))"
  using assms
  by (auto simp: FetchWeather_cases StatusOK_def Let_def split: prod.splits sum.splits if_splits)

theorem FetchWeather_failure_witness:
  "FetchWeather (mockServer 500 mockBody) decodeBody ''US'' [] =
     ((None, Some (BadStatus 500)),
      [''https://api.open-meteo.com/v1/forecast?latitude=40.7128&longitude=-74.0060&current=temperature_2m,apparent_temperature,weather_code'']) \<and>
   Error (BadStatus 500) = ''weather API returned status 500''"
proof -
  have failed: "snd (fst (FetchWeather (mockServer 500 mockBody) decodeBody ''US'' [])) =
      Some (BadStatus 500)"
    by (simp add: FetchWeather_cases mockServer_def mockBody_def malformedBody_def)
  from FetchWeather_failure [OF failed] show ?thesis
    by (simp add: prod_eq_iff failed fmt_d_500) (simp add: mockServer_def mockBody_def malformedBody_def buildURL_cases)
qed

text \<open>
  Claim C2, as stated, has every 2xx status proceed to decoding. The status 201 is a 2xx
  status and the body of the mock server decodes, yet the fetch fails with the status
  error.
\<close>

theorem FetchWeather_status_201_counterexample:
  "(200::int) \<le> 201 \<and> (201::int) < 300 \<and>
   decodeBody mockBody = Inr mockResponse \<and>
   fst (FetchWeather (mockServer 201 mockBody) decodeBody ''US'' []) =
     (None, Some (BadStatus 201))"
  by (simp add: FetchWeather_cases mockServer_def mockBody_def malformedBody_def decodeBody_def)

text \<open>
  Claim C2, amended. \<open>FetchWeather\<close> fails with the status error exactly when the GET
  yields a response whose status is not 200. With status 200 the fetch goes on to decode
  the body, and its outcome is that of the decoding; with any other status, 2xx or not,
  it returns the status error carrying that status.
\<close>

theorem FetchWeather_http_status:
  "((\<exists>code. snd (fst (FetchWeather clientGet jsonDecode country w)) = Some (BadStatus code)) \<longleftrightarrow>
    (\<exists>resp. fst (clientGet (buildURL (resolveCoordinates country)) w) = Inr resp \<and>
            StatusCode resp \<noteq> 200)) \<and>
   (\<forall>resp. fst (clientGet (buildURL (resolveCoordinates country)) w) = Inr resp \<longrightarrow>
      (if StatusCode resp = 200 then
         fst (FetchWeather clientGet jsonDecode country w) =
           (case jsonDecode (Body resp) of
              Inl err \<Rightarrow> (None, Some (ParseFailed err))
            | Inr apiResp \<Rightarrow>
                (Some \<lparr>Summary = describeWeatherCode (WeatherCode (Current apiResp)),
                       TemperatureC = Temperature (Current apiResp),
                       FeelsLikeC = ApparentTemperature (Current apiResp)\<rparr>, None))
       else fst (FetchWeather clientGet jsonDecode country w) =
              (None, Some (BadStatus (StatusCode resp)))))"
  by (auto simp: FetchWeather_cases Let_def split: prod.splits sum.splits if_splits)

theorem FetchWeather_http_status_witness:
  "fst (mockServer 404 malformedBody (buildURL (resolveCoordinates ''MX'')) []) =
     Inr \<lparr>StatusCode = 404, Body = malformedBody\<rparr> \<and>
   fst (FetchWeather (mockServer 404 malformedBody) decodeBody ''MX'' []) =
     (None, Some (BadStatus 404)) \<and>
   fst (mockServer 200 malformedBody (buildURL (resolveCoordinates ''MX'')) []) =
     Inr \<lparr>StatusCode = 200, Body = malformedBody\<rparr> \<and>
   fst (FetchWeather (mockServer 200 malformedBody) decodeBody ''MX'' []) =
     (None, Some (ParseFailed ''unexpected end of JSON input''))"
  using FetchWeather_http_status [of "mockServer 404 malformedBody" decodeBody "''MX''" "[]"]
    FetchWeather_http_status [of "mockServer 200 malformedBody" decodeBody "''MX''" "[]"]
  by (simp add: mockServer_def mockBody_def malformedBody_def decodeBody_def)

section \<open>The request URL\<close>

text \<open>
  Claim C7. For every country code, \<open>FetchWeather\<close> requests one URL, built from the
  resolved coordinates. It targets the forecast endpoint, has the query parameters
  \<open>latitude\<close> and \<open>longitude\<close>, each written as an optional minus sign, at least one
  digit, a point and exactly four digits, and ends with the parameter
  \<open>current=temperature_2m,apparent_temperature,weather_code\<close>. The URL is given in full
  for each country code.
\<close>

theorem FetchWeather_request_URL:
  "snd (FetchWeather clientGet jsonDecode country w) =
     snd (clientGet (buildURL (resolveCoordinates country)) w) \<and>
   (\<exists>lat lon. buildURL (resolveCoordinates country) =
        ''https://api.open-meteo.com/v1/forecast?latitude='' @ lat @ ''&longitude='' @ lon @
        ''&current=temperature_2m,apparent_temperature,weather_code'' \<and>
      lat = fmt_f4 (Lat (resolveCoordinates country)) \<and>
      lon = fmt_f4 (Lon (resolveCoordinates country)) \<and>
      (\<exists>sign ip fr. lat = sign @ ip @ ''.'' @ fr \<and> (sign = [] \<or> sign = ''-'') \<and> ip \<noteq> [] \<and>
         set ip \<subseteq> set ''0123456789'' \<and> length fr = 4 \<and> set fr \<subseteq> set ''0123456789'') \<and>
      (\<exists>sign ip fr. lon = sign @ ip @ ''.'' @ fr \<and> (sign = [] \<or> sign = ''-'') \<and> ip \<noteq> [] \<and>
         set ip \<subseteq> set ''0123456789'' \<and> length fr = 4 \<and> set fr \<subseteq> set ''0123456789'')) \<and>
   buildURL (resolveCoordinates country) =
     (if country = ''CA'' then
        ''https://api.open-meteo.com/v1/forecast?latitude=43.6532&longitude=-79.3832&current=temperature_2m,apparent_temperature,weather_code''
      else if country = ''MX'' then
        ''https://api.open-meteo.com/v1/forecast?latitude=19.4326&longitude=-99.1332&current=temperature_2m,apparent_temperature,weather_code''
      else
        ''https://api.open-meteo.com/v1/forecast?latitude=40.7128&longitude=-74.0060&current=temperature_2m,apparent_temperature,weather_code'')"
proof (intro conjI)
  show "snd (FetchWeather clientGet jsonDecode country w) =
     snd (clientGet (buildURL (resolveCoordinates country)) w)"
    by (simp add: FetchWeather_cases Let_def split: prod.splits)
next
  have "buildURL (resolveCoordinates country) =
      ''https://api.open-meteo.com/v1/forecast?latitude='' @
      fmt_f4 (Lat (resolveCoordinates country)) @ ''&longitude='' @
      fmt_f4 (Lon (resolveCoordinates country)) @
      ''&current=temperature_2m,apparent_temperature,weather_code''"
    by (simp add: buildURL_def)
  then show "\<exists>lat lon. buildURL (resolveCoordinates country) =
        ''https://api.open-meteo.com/v1/forecast?latitude='' @ lat @ ''&longitude='' @ lon @
        ''&current=temperature_2m,apparent_temperature,weather_code'' \<and>
      lat = fmt_f4 (Lat (resolveCoordinates country)) \<and>
      lon = fmt_f4 (Lon (resolveCoordinates country)) \<and>
      (\<exists>sign ip fr. lat = sign @ ip @ ''.'' @ fr \<and> (sign = [] \<or> sign = ''-'') \<and> ip \<noteq> [] \<and>
         set ip \<subseteq> set ''0123456789'' \<and> length fr = 4 \<and> set fr \<subseteq> set ''0123456789'') \<and>
      (\<exists>sign ip fr. lon = sign @ ip @ ''.'' @ fr \<and> (sign = [] \<or> sign = ''-'') \<and> ip \<noteq> [] \<and>
         set ip \<subseteq> set ''0123456789'' \<and> length fr = 4 \<and> set fr \<subseteq> set ''0123456789'')"
    using fmt_f4_shape [of "Lat (resolveCoordinates country)"]
      fmt_f4_shape [of "Lon (resolveCoordinates country)"]
    by blast
next
  show "buildURL (resolveCoordinates country) =
     (if country = ''CA'' then
        ''https://api.open-meteo.com/v1/forecast?latitude=43.6532&longitude=-79.3832&current=temperature_2m,apparent_temperature,weather_code''
      else if country = ''MX'' then
        ''https://api.open-meteo.com/v1/forecast?latitude=19.4326&longitude=-99.1332&current=temperature_2m,apparent_temperature,weather_code''
      else
        ''https://api.open-meteo.com/v1/forecast?latitude=40.7128&longitude=-74.0060&current=temperature_2m,apparent_temperature,weather_code'')"
    by (rule buildURL_cases)
qed

theorem FetchWeather_request_URL_witness:
  "snd (FetchWeather (mockServer 200 mockBody) decodeBody ''CA'' []) =
     [''https://api.open-meteo.com/v1/forecast?latitude=43.6532&longitude=-79.3832&current=temperature_2m,apparent_temperature,weather_code'']"
proof -
  note t = FetchWeather_request_URL [of "mockServer 200 mockBody" decodeBody "''CA''" "[]"]
  have "snd (FetchWeather (mockServer 200 mockBody) decodeBody ''CA'' []) =
      snd (mockServer 200 mockBody (buildURL (resolveCoordinates ''CA'')) [])"
    using t [THEN conjunct1] .
  moreover from t [THEN conjunct2, THEN conjunct2] have "buildURL (resolveCoordinates ''CA'') =
      ''https://api.open-meteo.com/v1/forecast?latitude=43.6532&longitude=-79.3832&current=temperature_2m,apparent_temperature,weather_code''"
    by simp
  ultimately show ?thesis
    by (simp add: mockServer_def mockBody_def malformedBody_def)
qed

section \<open>Exactly one outcome\<close>

text \<open>
  Claim C10. \<open>FetchWeather\<close> returns either a \<open>WeatherData\<close> and no error, or no
  \<open>WeatherData\<close> and an error, never both and never neither. When it returns a
  \<open>WeatherData\<close>, the summary is not the empty string.
\<close>

theorem FetchWeather_one_outcome:
  "(\<exists>d. fst (FetchWeather clientGet jsonDecode country w) = (Some d, None) \<and> Summary d \<noteq> []) \<or>
   (\<exists>e. fst (FetchWeather clientGet jsonDecode country w) = (None, Some e))"
  by (auto simp: FetchWeather_cases Let_def describeWeatherCode_nonempty
      split: prod.splits sum.splits if_splits)

theorem FetchWeather_one_outcome_witness:
  "fst (FetchWeather (mockServer 200 mockBody) decodeBody ''XX'' []) =
     (Some \<lparr>Summary = ''Clear sky'', TemperatureC = 25.5, FeelsLikeC = 24.0\<rparr>, None) \<and>
   fst (FetchWeather (deadServer ''timeout'') decodeBody ''XX'' []) =
     (None, Some (CallFailed ''timeout''))"
  using FetchWeather_one_outcome [of "mockServer 200 mockBody" decodeBody "''XX''" "[]"]
    FetchWeather_one_outcome [of "deadServer ''timeout''" decodeBody "''XX''" "[]"]
  by (simp add: FetchWeather_cases mockServer_def mockBody_def malformedBody_def deadServer_def decodeBody_def mockResponse_def
      describeWeatherCode_def weatherCodeDescriptions_def weatherCodeDescriptions_entries_def)

section \<open>Facts about the JSON round trip\<close>

lemma length_coerceFrom: "length s \<le> length (coerceFrom k s)"
  by (induction k s rule: coerceFrom.induct) (auto simp: replacementChar_def)

lemma coerceFrom_valid: "validFrom k s \<Longrightarrow> coerceFrom k s = s"
  by (induction k s rule: coerceFrom.induct) auto

lemma coerceFrom_invalid: "\<not> validFrom k s \<Longrightarrow> length s < length (coerceFrom k s)"
proof (induction k s rule: coerceFrom.induct)
  case (1 k)
  then show ?case by simp
next
  case (2 k c cs)
  then show ?case by simp
next
  case (3 c cs)
  show ?case
  proof (cases "runeLen (c # cs) = 0")
    case True
    then show ?thesis
      using length_coerceFrom [of cs 0] by (simp add: replacementChar_def)
  next
    case False
    with 3 show ?thesis by simp
  qed
qed

lemma coerceUTF8_fixed: "coerceUTF8 s = s \<longleftrightarrow> ValidString s"
  unfolding coerceUTF8_def ValidString_def
  using coerceFrom_valid [of 0 s] coerceFrom_invalid [of 0 s]
  by (metis less_irrefl)

lemma foldName_keys:
  "foldName ''summary'' = ''SUMMARY''"
  "foldName ''temperatureC'' = ''TEMPERATUREC''"
  "foldName ''feelsLikeC'' = ''FEELSLIKEC''"
  by code_simp+

lemma Unmarshal_Marshal:
  "Unmarshal_WeatherData (Marshal_WeatherData d) =
     Inr \<lparr>Summary = coerceUTF8 (Summary d), TemperatureC = TemperatureC d, FeelsLikeC = FeelsLikeC d\<rparr>"
  by (simp add: Unmarshal_WeatherData_def Marshal_WeatherData_def assignField_def foldName_keys)

lemma ValidString_Clear_sky: "ValidString ''Clear sky''"
  by (simp add: ValidString_def runeLen_def byte_def)

section \<open>The round trip\<close>

text \<open>
  Claim C9, as stated, has every \<open>WeatherData\<close> come back unchanged. A summary that is the
  single byte FF, which is not valid UTF-8, comes back as the three bytes of U+FFFD.
\<close>

theorem roundtrip_invalid_UTF8_counterexample:
  "Unmarshal_WeatherData
     (Marshal_WeatherData \<lparr>Summary = [CHR 0xFF], TemperatureC = 25.5, FeelsLikeC = 24.0\<rparr>) =
     Inr \<lparr>Summary = [CHR 0xEF, CHR 0xBF, CHR 0xBD], TemperatureC = 25.5, FeelsLikeC = 24.0\<rparr> \<and>
   Unmarshal_WeatherData
     (Marshal_WeatherData \<lparr>Summary = [CHR 0xFF], TemperatureC = 25.5, FeelsLikeC = 24.0\<rparr>) \<noteq>
     Inr \<lparr>Summary = [CHR 0xFF], TemperatureC = 25.5, FeelsLikeC = 24.0\<rparr>"
  by (simp add: Unmarshal_Marshal coerceUTF8_def runeLen_def byte_def replacementChar_def)

text \<open>
  Claim C9, amended. For every \<open>WeatherData\<close> whose temperatures are finite numbers, as
  all those of this development are, serialising it to the output JSON shape (members
  \<open>summary\<close>, \<open>temperatureC\<close>, \<open>feelsLikeC\<close>) and parsing that back succeeds, and yields
  a value equal to the original in every field exactly when the summary is valid UTF-8.
\<close>

theorem WeatherData_roundtrip:
  "Unmarshal_WeatherData (Marshal_WeatherData d) = Inr d \<longleftrightarrow> ValidString (Summary d)"
proof -
  have "\<lparr>Summary = coerceUTF8 (Summary d), TemperatureC = TemperatureC d,
          FeelsLikeC = FeelsLikeC d\<rparr> = d
      \<longleftrightarrow> coerceUTF8 (Summary d) = Summary d"
    by (cases d) simp
  then show ?thesis
    by (simp only: Unmarshal_Marshal coerceUTF8_fixed sum.inject)
qed

theorem WeatherData_roundtrip_witness:
  "ValidString ''Clear sky'' \<and>
   Unmarshal_WeatherData
     (Marshal_WeatherData \<lparr>Summary = ''Clear sky'', TemperatureC = 25.5, FeelsLikeC = 24.0\<rparr>) =
     Inr \<lparr>Summary = ''Clear sky'', TemperatureC = 25.5, FeelsLikeC = 24.0\<rparr>"
  using WeatherData_roundtrip
    [of "\<lparr>Summary = ''Clear sky'', TemperatureC = 25.5, FeelsLikeC = 24.0\<rparr>"]
  by (simp add: ValidString_Clear_sky)

end
